theory Spec2Isabelle
  imports Main "HOL-Library.Word" "HOL-Library.Monad_Syntax"
begin

unbundle bit_operations_syntax

section \<open>The MIDI relay controller of main.c\<close>

subsection \<open>Constants\<close>

type_synonym u8 = "8 word"

text \<open>The \<^verbatim>\<open>#define\<close> macros of main.c. A macro is textual substitution, so each one
  is an abbreviation.\<close>

abbreviation MIDI_NOTE_OFF :: u8 where "MIDI_NOTE_OFF \<equiv> 0x80"
abbreviation MIDI_NOTE_ON :: u8 where "MIDI_NOTE_ON \<equiv> 0x90"
abbreviation MIDI_CC :: u8 where "MIDI_CC \<equiv> 0xB0"
abbreviation MIDI_PROGRAM_CHANGE :: u8 where "MIDI_PROGRAM_CHANGE \<equiv> 0xC0"

abbreviation RELAY_1_PIN :: nat where "RELAY_1_PIN \<equiv> 16"
abbreviation RELAY_2_PIN :: nat where "RELAY_2_PIN \<equiv> 17"
abbreviation RELAY_3_PIN :: nat where "RELAY_3_PIN \<equiv> 18"
abbreviation RELAY_4_PIN :: nat where "RELAY_4_PIN \<equiv> 19"

abbreviation RELAY_1_NOTE :: u8 where "RELAY_1_NOTE \<equiv> 60"
abbreviation RELAY_2_NOTE :: u8 where "RELAY_2_NOTE \<equiv> 61"
abbreviation RELAY_3_NOTE :: u8 where "RELAY_3_NOTE \<equiv> 62"
abbreviation RELAY_4_NOTE :: u8 where "RELAY_4_NOTE \<equiv> 63"

subsection \<open>State and effects\<close>

text \<open>
  Every \<^verbatim>\<open>printf\<close> of the relay and message code is one constructor: the format string
  names the constructor, the arguments of the call are its fields, in the order of the call.
  \<^item> \<open>RelayLine\<close>: \<^verbatim>\<open>"Relay %d: %s"\<close>
  \<^item> \<open>RelayStatesLine\<close>: \<^verbatim>\<open>"Relay States: [1:%s] [2:%s] [3:%s] [4:%s]"\<close>
  \<^item> \<open>NoteOnLine\<close>: \<^verbatim>\<open>"[%s] Note On: Ch%d Note%d Vel%d"\<close>
  \<^item> \<open>NoteOffVel0Line\<close>: \<^verbatim>\<open>"[%s] Note Off: Ch%d Note%d"\<close>
  \<^item> \<open>NoteOffLine\<close>: \<^verbatim>\<open>"[%s] Note Off: Ch%d Note%d Vel%d"\<close>
  \<^item> \<open>NoteNotMappedLine\<close>: \<^verbatim>\<open>"Note %d not mapped to relay"\<close>
  \<^item> \<open>CCLine\<close>: \<^verbatim>\<open>"[%s] CC: Ch%d CC%d Val%d"\<close>
  \<^item> \<open>ProgramLine\<close>: \<^verbatim>\<open>"[%s] Program: Ch%d Prog%d"\<close>
  \<^item> \<open>UnknownLine\<close>: \<^verbatim>\<open>"[%s] Unknown MIDI: 0x%02X 0x%02X 0x%02X"\<close>
\<close>

datatype log_line =
    RelayLine int bool
  | RelayStatesLine bool bool bool bool
  | NoteOnLine string int u8 u8
  | NoteOffVel0Line string int u8
  | NoteOffLine string int u8 u8
  | NoteNotMappedLine u8
  | CCLine string int u8 u8
  | ProgramLine string int u8
  | UnknownLine string u8 u8 u8

text \<open>What the code does to the outside: a pin write or a console line.\<close>

datatype effect = GpioPut nat bool | Printf log_line

text \<open>
  The global \<^verbatim>\<open>static bool relay_states[4]\<close> and the effects issued so far, oldest
  first. The array is a list; the states the program can be in have four elements.
\<close>

record device =
  relay_states :: "bool list"
  effects :: "effect list"

text \<open>The state at program start: \<^verbatim>\<open>relay_states = {false, false, false, false}\<close>.\<close>

definition boot_device :: device where
  "boot_device = \<lparr>relay_states = [False, False, False, False], effects = []\<rparr>"

definition gpio_put :: "nat \<Rightarrow> bool \<Rightarrow> device \<Rightarrow> device" where
  "gpio_put pin v s = s\<lparr>effects := effects s @ [GpioPut pin v]\<rparr>"

definition printf :: "log_line \<Rightarrow> device \<Rightarrow> device" where
  "printf l s = s\<lparr>effects := effects s @ [Printf l]\<rparr>"

text \<open>
  The C assignment \<^verbatim>\<open>relay_states[i] = v\<close>. A store outside the array is undefined
  behaviour in C; here it is the result \<open>None\<close>, so that a theorem saying a call
  returns \<open>Some\<close> says the call stays inside the array.
\<close>

definition store_relay_state :: "int \<Rightarrow> bool \<Rightarrow> device \<Rightarrow> device option" where
  "store_relay_state i v s =
     (if 0 \<le> i \<and> i < int (length (relay_states s))
      then Some (s\<lparr>relay_states := (relay_states s)[nat i := v]\<rparr>)
      else None)"

text \<open>\<^verbatim>\<open>getStates\<close> of the specification: the array, read only.\<close>

definition getStates :: "device \<Rightarrow> bool list" where
  "getStates s = relay_states s"

subsection \<open>The relay functions\<close>

definition print_relay_states :: "device \<Rightarrow> device" where
  "print_relay_states s =
     printf (RelayStatesLine (relay_states s ! 0) (relay_states s ! 1)
                             (relay_states s ! 2) (relay_states s ! 3)) s"

definition set_relay :: "int \<Rightarrow> bool \<Rightarrow> device \<Rightarrow> device option" where
  "set_relay relay_num state s =
     (if relay_num < 1 \<or> relay_num > 4 then Some s
      else do {
        s1 \<leftarrow> store_relay_state (relay_num - 1) state s;
        let s2 = (if relay_num = 1 then gpio_put RELAY_1_PIN state s1
                  else if relay_num = 2 then gpio_put RELAY_2_PIN state s1
                  else if relay_num = 3 then gpio_put RELAY_3_PIN state s1
                  else if relay_num = 4 then gpio_put RELAY_4_PIN state s1
                  else s1);
        let s3 = printf (RelayLine relay_num state) s2;
        Some (print_relay_states s3)
      })"

subsection \<open>The message handler\<close>

definition process_midi_message :: "u8 \<Rightarrow> u8 \<Rightarrow> u8 \<Rightarrow> bool \<Rightarrow> device \<Rightarrow> device option" where
  "process_midi_message status data1 data2 from_bluetooth s =
     (let source = (if from_bluetooth then ''BT'' else ''USB'');
          msg_type = status AND 0xF0;
          channel = status AND 0x0F
      in
      if msg_type = MIDI_NOTE_ON then
        (if data2 > 0 then
           (let s1 = printf (NoteOnLine source (uint channel + 1) data1 data2) s in
            if data1 = RELAY_1_NOTE then set_relay 1 True s1
            else if data1 = RELAY_2_NOTE then set_relay 2 True s1
            else if data1 = RELAY_3_NOTE then set_relay 3 True s1
            else if data1 = RELAY_4_NOTE then set_relay 4 True s1
            else Some (printf (NoteNotMappedLine data1) s1))
         else
           (let s1 = printf (NoteOffVel0Line source (uint channel + 1) data1) s in
            if data1 = RELAY_1_NOTE then set_relay 1 False s1
            else if data1 = RELAY_2_NOTE then set_relay 2 False s1
            else if data1 = RELAY_3_NOTE then set_relay 3 False s1
            else if data1 = RELAY_4_NOTE then set_relay 4 False s1
            else Some s1))
      else if msg_type = MIDI_NOTE_OFF then
        (let s1 = printf (NoteOffLine source (uint channel + 1) data1 data2) s in
         if data1 = RELAY_1_NOTE then set_relay 1 False s1
         else if data1 = RELAY_2_NOTE then set_relay 2 False s1
         else if data1 = RELAY_3_NOTE then set_relay 3 False s1
         else if data1 = RELAY_4_NOTE then set_relay 4 False s1
         else Some s1)
      else if msg_type = MIDI_CC then
        (let s1 = printf (CCLine source (uint channel + 1) data1 data2) s in
         if data1 \<ge> 1 \<and> data1 \<le> 4 then set_relay (uint data1) (data2 \<ge> 64) s1
         else Some s1)
      else if msg_type = MIDI_PROGRAM_CHANGE then
        (let s1 = printf (ProgramLine source (uint channel + 1) data1) s in
         if data1 \<ge> 0 \<and> data1 \<le> 3 then
           do {
             s2 \<leftarrow> set_relay 1 False s1;
             s3 \<leftarrow> set_relay 2 False s2;
             s4 \<leftarrow> set_relay 3 False s3;
             s5 \<leftarrow> set_relay 4 False s4;
             set_relay (uint data1 + 1) True s5
           }
         else
           do {
             s2 \<leftarrow> set_relay 1 False s1;
             s3 \<leftarrow> set_relay 2 False s2;
             s4 \<leftarrow> set_relay 3 False s3;
             set_relay 4 False s4
           })
      else Some (printf (UnknownLine source status data1 data2) s))"

subsection \<open>Observing the effects\<close>

text \<open>The pin writes among a run of effects, in the order they were issued.\<close>

fun gpio_writes :: "effect list \<Rightarrow> (nat \<times> bool) list" where
  "gpio_writes [] = []"
| "gpio_writes (GpioPut pin v # es) = (pin, v) # gpio_writes es"
| "gpio_writes (Printf l # es) = gpio_writes es"

subsection \<open>The transports and the event loop\<close>

text \<open>
  Modelled from the spec: the transport collaborators. The USB stack (\<^verbatim>\<open>tud_*\<close>) and the
  BLE MIDI server (\<^verbatim>\<open>ble_midi_server_*\<close>) are libraries outside main.c; the specification
  gives their interface: a USB transport with \<^verbatim>\<open>mounted() -> bool\<close> and
  \<^verbatim>\<open>readPacket() -> Option<[byte;4]>\<close>, a Bluetooth transport with
  \<^verbatim>\<open>connected() -> bool\<close> and \<^verbatim>\<open>readFrame(maxLen)\<close> returning a payload of 1 to 3 bytes,
  and a read with nothing pending returning nothing. Each transport is a queue of pending
  messages, oldest first; a read takes the head of the queue.
\<close>

type_synonym usb_packet = "u8 \<times> u8 \<times> u8 \<times> u8"

record world =
  dev :: device
  usb_mounted :: bool
  usb_pending :: "usb_packet list"
  ble_connected :: bool
  ble_pending :: "u8 list list"



text \<open>Modelled from the spec: \<^verbatim>\<open>ble_midi_server_is_connected()\<close> of the BLE MIDI
  library, the specification's \<^verbatim>\<open>connected() -> bool\<close>.\<close>

definition ble_midi_server_is_connected :: "world \<Rightarrow> bool" where
  "ble_midi_server_is_connected w = ble_connected w"

text \<open>Modelled from the spec: \<^verbatim>\<open>ble_midi_server_stream_read(max_len, buffer, &timestamp)\<close>
  of the BLE MIDI library, the specification's \<^verbatim>\<open>readFrame(maxLen)\<close>. The result is the
  number of bytes read and the buffer afterwards. Only the bytes read are written; the
  rest of the buffer keeps what it held. With nothing pending the read returns zero
  bytes.\<close>

definition ble_midi_server_stream_read ::
    "nat \<Rightarrow> u8 list \<Rightarrow> world \<Rightarrow> (u8 \<times> u8 list) \<times> world" where
  "ble_midi_server_stream_read max_len buffer w =
     (case ble_pending w of
        [] \<Rightarrow> ((0, buffer), w)
      | f # fs \<Rightarrow>
          (let n = min max_len (length f)
           in ((of_nat n, take n f @ drop n buffer), w\<lparr>ble_pending := fs\<rparr>)))"


text \<open>\<open>ble_packet_uninit\<close> is what the local array \<^verbatim>\<open>uint8_t ble_packet[3]\<close> holds
  before the read: it is not initialised, so any three bytes.\<close>

definition main_ble_block :: "u8 list \<Rightarrow> world \<Rightarrow> world option" where
  "main_ble_block ble_packet_uninit w =
     (if ble_midi_server_is_connected w then
        (case ble_midi_server_stream_read 3 ble_packet_uninit w of
           ((nread, ble_packet), w') \<Rightarrow>
             if nread > 0 then
               (if nread \<ge> 1 then
                  (let data1 = (if nread \<ge> 2 then ble_packet ! 1 else 0);
                       data2 = (if nread \<ge> 3 then ble_packet ! 2 else 0)
                   in map_option (\<lambda>d. w'\<lparr>dev := d\<rparr>)
                        (process_midi_message (ble_packet ! 0) data1 data2 True (dev w')))
                else Some w')
             else Some w')
      else Some w)"


section \<open>Properties\<close>

subsection \<open>Auxiliary facts\<close>

lemma gpio_writes_append: "gpio_writes (xs @ ys) = gpio_writes xs @ gpio_writes ys"
  by (induction xs rule: gpio_writes.induct) simp_all

lemma u8_le_3_cases: "(d::u8) \<le> 3 \<Longrightarrow> d = 0 \<or> d = 1 \<or> d = 2 \<or> d = 3"
  by (simp add: word_le_nat_alt word_unat_eq_iff) arith

lemma u8_1_4_cases: "(1::u8) \<le> d \<Longrightarrow> d \<le> 4 \<Longrightarrow> d = 1 \<or> d = 2 \<or> d = 3 \<or> d = 4"
  by (simp add: word_le_nat_alt word_unat_eq_iff) arith

lemma length_4_cases: "length xs = 4 \<Longrightarrow> \<exists>a b c d. xs = [a, b, c, d]"
  by (cases xs; cases "tl xs"; cases "tl (tl xs)"; cases "tl (tl (tl xs))") auto

lemma device_cases4:
  assumes "length (relay_states s) = 4"
  obtains a b c d es where "s = \<lparr>relay_states = [a, b, c, d], effects = es\<rparr>"
proof -
  from assms obtain a b c d where "relay_states s = [a, b, c, d]"
    using length_4_cases by blast
  then have "s = \<lparr>relay_states = [a, b, c, d], effects = effects s\<rparr>" by simp
  then show ?thesis using that by blast
qed

text \<open>What a call of \<open>set_relay\<close> with a valid relay number does, in one equation: the
  store, the pin write, the two console lines.\<close>

lemma set_relay_in_range:
  assumes "1 \<le> n" "n \<le> 4" "length (relay_states s) = 4"
  shows "set_relay n b s =
           Some \<lparr>relay_states = (relay_states s)[nat (n - 1) := b],
                 effects = effects s @
                   [GpioPut (nat (15 + n)) b, Printf (RelayLine n b),
                    Printf (RelayStatesLine ((relay_states s)[nat (n - 1) := b] ! 0)
                                            ((relay_states s)[nat (n - 1) := b] ! 1)
                                            ((relay_states s)[nat (n - 1) := b] ! 2)
                                            ((relay_states s)[nat (n - 1) := b] ! 3))]\<rparr>"
proof -
  from assms(1,2) consider "n = 1" | "n = 2" | "n = 3" | "n = 4" by arith
  then show ?thesis
    by cases (simp_all add: set_relay_def store_relay_state_def gpio_put_def printf_def
        print_relay_states_def assms(3))
qed

subsection \<open>The handler, message type by message type\<close>

lemma u8_60_63_cases:
  "(60::u8) \<le> d \<Longrightarrow> d \<le> 63 \<Longrightarrow> d = 60 \<or> d = 61 \<or> d = 62 \<or> d = 63"
  by (simp add: word_le_nat_alt word_unat_eq_iff) arith

lemma u8_not_60_63:
  "\<not> ((60::u8) \<le> d \<and> d \<le> 63) \<Longrightarrow> d \<noteq> 60 \<and> d \<noteq> 61 \<and> d \<noteq> 62 \<and> d \<noteq> 63"
  by auto

lemma note_on_closed_form:
  assumes "status AND 0xF0 = MIDI_NOTE_ON" and "length (relay_states s) = 4"
  shows "\<exists>s' new. process_midi_message status data1 data2 from_bluetooth s = Some s' \<and>
           relay_states s' =
             (if 60 \<le> data1 \<and> data1 \<le> 63 then (relay_states s)[unat data1 - 60 := (0 < data2)]
              else relay_states s) \<and>
           effects s' = effects s @ new"
proof (cases "60 \<le> data1 \<and> data1 \<le> 63")
  case True
  then consider "data1 = 60" | "data1 = 61" | "data1 = 62" | "data1 = 63"
    using u8_60_63_cases by blast
  then show ?thesis
    by cases (simp_all add: process_midi_message_def Let_def assms printf_def set_relay_in_range)
next
  case False
  then show ?thesis
    using u8_not_60_63 [OF False]
    by (auto simp add: process_midi_message_def Let_def assms printf_def)
qed

lemma note_off_closed_form:
  assumes "status AND 0xF0 = MIDI_NOTE_OFF" and "length (relay_states s) = 4"
  shows "\<exists>s' new. process_midi_message status data1 data2 from_bluetooth s = Some s' \<and>
           relay_states s' =
             (if 60 \<le> data1 \<and> data1 \<le> 63 then (relay_states s)[unat data1 - 60 := False]
              else relay_states s) \<and>
           effects s' = effects s @ new"
proof (cases "60 \<le> data1 \<and> data1 \<le> 63")
  case True
  then consider "data1 = 60" | "data1 = 61" | "data1 = 62" | "data1 = 63"
    using u8_60_63_cases by blast
  then show ?thesis
    by cases (simp_all add: process_midi_message_def Let_def assms printf_def set_relay_in_range)
next
  case False
  then show ?thesis
    using u8_not_60_63 [OF False]
    by (auto simp add: process_midi_message_def Let_def assms printf_def)
qed

lemma cc_closed_form:
  assumes "status AND 0xF0 = MIDI_CC" and "length (relay_states s) = 4"
  shows "\<exists>s' new. process_midi_message status data1 data2 from_bluetooth s = Some s' \<and>
           relay_states s' =
             (if 1 \<le> data1 \<and> data1 \<le> 4 then (relay_states s)[unat data1 - 1 := (64 \<le> data2)]
              else relay_states s) \<and>
           effects s' = effects s @ new"
proof (cases "1 \<le> data1 \<and> data1 \<le> 4")
  case True
  then consider "data1 = 1" | "data1 = 2" | "data1 = 3" | "data1 = 4"
    using u8_1_4_cases by blast
  then show ?thesis
    by cases (simp_all add: process_midi_message_def assms printf_def set_relay_in_range)
next
  case False
  then show ?thesis
    by (auto simp add: process_midi_message_def Let_def assms printf_def)
qed

lemma program_change_closed_form:
  assumes "status AND 0xF0 = MIDI_PROGRAM_CHANGE" and "length (relay_states s) = 4"
  shows "\<exists>s' new. process_midi_message status data1 data2 from_bluetooth s = Some s' \<and>
           relay_states s' = [data1 = 0, data1 = 1, data1 = 2, data1 = 3] \<and>
           effects s' = effects s @ new"
proof -
  from assms(2) obtain a b c d es where s: "s = \<lparr>relay_states = [a, b, c, d], effects = es\<rparr>"
    by (rule device_cases4)
  show ?thesis
  proof (cases "data1 \<le> 3")
    case True
    then consider "data1 = 0" | "data1 = 1" | "data1 = 2" | "data1 = 3"
      using u8_le_3_cases by blast
    then show ?thesis
      by cases (simp_all add: process_midi_message_def assms(1) s printf_def set_relay_in_range)
  next
    case False
    then have "data1 \<noteq> 0" "data1 \<noteq> 1" "data1 \<noteq> 2" "data1 \<noteq> 3"
      by auto
    with False show ?thesis
      by (simp add: process_midi_message_def assms(1) s printf_def set_relay_in_range)
  qed
qed

lemma unknown_closed_form:
  assumes "status AND 0xF0 \<noteq> MIDI_NOTE_OFF" "status AND 0xF0 \<noteq> MIDI_NOTE_ON"
    "status AND 0xF0 \<noteq> MIDI_CC" "status AND 0xF0 \<noteq> MIDI_PROGRAM_CHANGE"
  shows "process_midi_message status data1 data2 from_bluetooth s =
           Some (s\<lparr>effects := effects s @
                   [Printf (UnknownLine (if from_bluetooth then ''BT'' else ''USB'')
                                        status data1 data2)]\<rparr>)"
  using assms by (simp add: process_midi_message_def printf_def)

text \<open>Whatever the message, the handler returns, the array keeps its four elements, the
  effects issued before are still there, and the array afterwards is a function of the
  message type, the two data bytes and the array before.\<close>

lemma process_midi_message_relay_states:
  assumes "length (relay_states s) = 4"
  shows "\<exists>s' new. process_midi_message status data1 data2 from_bluetooth s = Some s' \<and>
           effects s' = effects s @ new \<and>
           relay_states s' =
             (if status AND 0xF0 = MIDI_NOTE_ON then
                (if 60 \<le> data1 \<and> data1 \<le> 63 then (relay_states s)[unat data1 - 60 := (0 < data2)]
                 else relay_states s)
              else if status AND 0xF0 = MIDI_NOTE_OFF then
                (if 60 \<le> data1 \<and> data1 \<le> 63 then (relay_states s)[unat data1 - 60 := False]
                 else relay_states s)
              else if status AND 0xF0 = MIDI_CC then
                (if 1 \<le> data1 \<and> data1 \<le> 4 then (relay_states s)[unat data1 - 1 := (64 \<le> data2)]
                 else relay_states s)
              else if status AND 0xF0 = MIDI_PROGRAM_CHANGE then
                [data1 = 0, data1 = 1, data1 = 2, data1 = 3]
              else relay_states s)"
proof -
  consider (on) "status AND 0xF0 = MIDI_NOTE_ON" | (off) "status AND 0xF0 = MIDI_NOTE_OFF"
    | (cc) "status AND 0xF0 = MIDI_CC" | (pc) "status AND 0xF0 = MIDI_PROGRAM_CHANGE"
    | (unknown) "status AND 0xF0 \<noteq> MIDI_NOTE_OFF" "status AND 0xF0 \<noteq> MIDI_NOTE_ON"
        "status AND 0xF0 \<noteq> MIDI_CC" "status AND 0xF0 \<noteq> MIDI_PROGRAM_CHANGE"
    by blast
  then show ?thesis
  proof cases
    case on
    with note_on_closed_form [OF on assms, of data1 data2 from_bluetooth] show ?thesis
      by auto
  next
    case off
    with note_off_closed_form [OF off assms, of data1 data2 from_bluetooth] show ?thesis
      by auto
  next
    case cc
    with cc_closed_form [OF cc assms, of data1 data2 from_bluetooth] show ?thesis
      by auto
  next
    case pc
    with program_change_closed_form [OF pc assms, of data1 data2 from_bluetooth] show ?thesis
      by auto
  next
    case unknown
    then show ?thesis
      by (simp add: unknown_closed_form)
  qed
qed

lemma process_midi_message_total:
  assumes "length (relay_states s) = 4"
  shows "\<exists>s' new. process_midi_message status data1 data2 from_bluetooth s = Some s' \<and>
           length (relay_states s') = 4 \<and> effects s' = effects s @ new"
proof -
  from process_midi_message_relay_states [OF assms, of status data1 data2 from_bluetooth]
  obtain s' new where *: "process_midi_message status data1 data2 from_bluetooth s = Some s'"
    "effects s' = effects s @ new"
    and rs: "relay_states s' =
             (if status AND 0xF0 = MIDI_NOTE_ON then
                (if 60 \<le> data1 \<and> data1 \<le> 63 then (relay_states s)[unat data1 - 60 := (0 < data2)]
                 else relay_states s)
              else if status AND 0xF0 = MIDI_NOTE_OFF then
                (if 60 \<le> data1 \<and> data1 \<le> 63 then (relay_states s)[unat data1 - 60 := False]
                 else relay_states s)
              else if status AND 0xF0 = MIDI_CC then
                (if 1 \<le> data1 \<and> data1 \<le> 4 then (relay_states s)[unat data1 - 1 := (64 \<le> data2)]
                 else relay_states s)
              else if status AND 0xF0 = MIDI_PROGRAM_CHANGE then
                [data1 = 0, data1 = 1, data1 = 2, data1 = 3]
              else relay_states s)"
    by blast
  have "length (relay_states s') = 4"
    unfolding rs using assms by simp
  with * show ?thesis by blast
qed

subsection \<open>The two blocks of the loop body\<close>

lemma ble_read_nonempty:
  assumes "f \<noteq> []" and "length buffer = 3" and "ble_pending w = f # fs"
  shows "\<exists>nread ble_packet.
           ble_midi_server_stream_read 3 buffer w = ((nread, ble_packet), w\<lparr>ble_pending := fs\<rparr>) \<and>
           nread > 0 \<and> nread \<ge> 1 \<and> (nread \<ge> 2 \<longleftrightarrow> 2 \<le> length f) \<and>
           (nread \<ge> 3 \<longleftrightarrow> 3 \<le> length f) \<and>
           ble_packet ! 0 = f ! 0 \<and> (2 \<le> length f \<longrightarrow> ble_packet ! 1 = f ! 1) \<and>
           (3 \<le> length f \<longrightarrow> ble_packet ! 2 = f ! 2)"
proof -
  from assms(1) consider a where "f = [a]" | a b where "f = [a, b]"
    | a b c r where "f = a # b # c # r"
    by (cases f; cases "tl f"; cases "tl (tl f)") auto
  then show ?thesis
  proof cases
    case 1
    then show ?thesis using assms(2,3)
      by (simp add: ble_midi_server_stream_read_def word_le_nat_alt word_less_nat_alt)
  next
    case 2
    then show ?thesis using assms(2,3)
      by (simp add: ble_midi_server_stream_read_def word_le_nat_alt word_less_nat_alt)
  next
    case 3
    then show ?thesis using assms(2,3)
      by (simp add: ble_midi_server_stream_read_def word_le_nat_alt word_less_nat_alt)
  qed
qed

lemma main_ble_block_dispatch:
  assumes "ble_connected w" and "length ble_packet_uninit = 3"
    and "ble_pending w = f # fs" and "f \<noteq> []"
  shows "main_ble_block ble_packet_uninit w =
           map_option (\<lambda>d. w\<lparr>ble_pending := fs, dev := d\<rparr>)
             (process_midi_message (f ! 0) (if 2 \<le> length f then f ! 1 else 0)
                (if 3 \<le> length f then f ! 2 else 0) True (dev w))"
proof -
  from ble_read_nonempty [OF assms(4,2,3)] obtain nread ble_packet where
    r: "ble_midi_server_stream_read 3 ble_packet_uninit w =
          ((nread, ble_packet), w\<lparr>ble_pending := fs\<rparr>)"
    and n: "nread > 0" "nread \<ge> 1" "nread \<ge> 2 \<longleftrightarrow> 2 \<le> length f" "nread \<ge> 3 \<longleftrightarrow> 3 \<le> length f"
    and b: "ble_packet ! 0 = f ! 0" "2 \<le> length f \<longrightarrow> ble_packet ! 1 = f ! 1"
      "3 \<le> length f \<longrightarrow> ble_packet ! 2 = f ! 2"
    by blast
  show ?thesis
    using assms(1) n b
    by (simp add: main_ble_block_def ble_midi_server_is_connected_def r)
qed

lemma main_ble_block_no_dispatch:
  "\<not> ble_connected w \<Longrightarrow> main_ble_block g w = Some w"
  "ble_pending w = [] \<Longrightarrow> main_ble_block g w = Some w"
  "ble_connected w \<Longrightarrow> ble_pending w = [] # fs \<Longrightarrow> main_ble_block g w = Some (w\<lparr>ble_pending := fs\<rparr>)"
  by (simp_all add: main_ble_block_def ble_midi_server_is_connected_def
      ble_midi_server_stream_read_def)



subsection \<open>The relay controller\<close>

text \<open>
  Claim C5. For every relay number in 1..4, every value \<open>on\<close> and every prior state with
  its four-element array, \<open>set_relay\<close> returns, and afterwards \<open>getStates\<close> holds
  \<open>on\<close> at index \<open>relay_num - 1\<close>.
\<close>

theorem set_relay_sets_slot:
  assumes "1 \<le> relay_num" "relay_num \<le> 4" "length (relay_states s) = 4"
  shows "\<exists>s'. set_relay relay_num on s = Some s' \<and> getStates s' ! nat (relay_num - 1) = on"
  using assms by (simp add: set_relay_in_range getStates_def)

theorem set_relay_sets_slot_witness:
  "(1::int) \<le> 3 \<and> (3::int) \<le> 4 \<and> length (relay_states boot_device) = 4 \<and>
   (\<exists>s'. set_relay 3 True boot_device = Some s' \<and> getStates s' ! nat (3 - 1) = True)"
  using set_relay_sets_slot [of 3 boot_device True] by (simp add: boot_device_def)

text \<open>
  Claim C10. For every relay number in 1..4, \<open>set_relay\<close> changes only the slot
  \<open>relay_num - 1\<close> of the array: the array keeps its four elements and each of the other
  three slots keeps its value.
\<close>

theorem set_relay_frame:
  assumes "1 \<le> relay_num" "relay_num \<le> 4" "length (relay_states s) = 4"
  shows "\<exists>s'. set_relay relay_num on s = Some s' \<and>
              length (getStates s') = 4 \<and>
              (\<forall>j < 4. j \<noteq> nat (relay_num - 1) \<longrightarrow> getStates s' ! j = getStates s ! j)"
  using assms by (simp add: set_relay_in_range getStates_def)

theorem set_relay_frame_witness:
  "\<exists>s'. set_relay 2 True boot_device = Some s' \<and> length (getStates s') = 4 \<and>
        getStates s' ! 0 = False \<and> getStates s' ! 2 = False \<and> getStates s' ! 3 = False"
  using set_relay_frame [of 2 boot_device True] by (auto simp add: boot_device_def getStates_def)

text \<open>
  Claim C4, as the code has it. For every relay number outside 1..4 and every value,
  \<open>set_relay\<close> returns the state it was given: no fault, the array unchanged, no pin
  write and no console line. The guard returns before any \<^verbatim>\<open>printf\<close>, so no diagnostic
  is logged.
\<close>

theorem set_relay_out_of_range:
  assumes "relay_num < 1 \<or> relay_num > 4"
  shows "set_relay relay_num on s = Some s"
  using assms by (auto simp add: set_relay_def)

theorem set_relay_out_of_range_witness:
  "((0::int) < 1 \<or> (0::int) > 4) \<and> set_relay 0 True boot_device = Some boot_device \<and>
   ((5::int) < 1 \<or> (5::int) > 4) \<and> set_relay 5 True boot_device = Some boot_device"
  using set_relay_out_of_range [of 0 True boot_device] set_relay_out_of_range [of 5 True boot_device]
  by simp

text \<open>
  Claim C4 as stated says that the rejected call logs a diagnostic. At relay numbers 0 and
  5, from the boot state, the effects after the call are the effects before it: nothing
  was logged.
\<close>

theorem set_relay_invalid_logs_nothing:
  "\<not> (effects (the (set_relay 0 True boot_device)) \<noteq> effects boot_device) \<and>
   \<not> (effects (the (set_relay 5 True boot_device)) \<noteq> effects boot_device)"
  by (simp add: set_relay_def)

subsection \<open>The command mapping\<close>

text \<open>
  Claim C1. For every prior state and every Program Change message (high nibble 0xC of the
  status byte), the handler returns; afterwards relay \<open>k + 1\<close> is on exactly when
  \<open>data1 = k\<close>, for \<open>k\<close> in 0..3, so one relay is on when \<open>data1\<close> is in 0..3 and
  none otherwise. In both cases the pin writes of the handler start with the four writes of
  \<open>False\<close> to relays 1 to 4, followed by the write of \<open>True\<close> to the selected relay
  when there is one.
\<close>

theorem program_change_exclusive_select:
  assumes "status AND 0xF0 = MIDI_PROGRAM_CHANGE" and "length (relay_states s) = 4"
  shows "\<exists>s' new. process_midi_message status data1 data2 from_bluetooth s = Some s' \<and>
           relay_states s' = [data1 = 0, data1 = 1, data1 = 2, data1 = 3] \<and>
           effects s' = effects s @ new \<and>
           gpio_writes new =
             [(RELAY_1_PIN, False), (RELAY_2_PIN, False), (RELAY_3_PIN, False), (RELAY_4_PIN, False)]
             @ (if data1 \<le> 3 then [(RELAY_1_PIN + unat data1, True)] else [])"
proof -
  from assms(2) obtain a b c d es where s: "s = \<lparr>relay_states = [a, b, c, d], effects = es\<rparr>"
    by (rule device_cases4)
  show ?thesis
  proof (cases "data1 \<le> 3")
    case True
    then consider "data1 = 0" | "data1 = 1" | "data1 = 2" | "data1 = 3"
      using u8_le_3_cases by blast
    then show ?thesis
      by cases (simp_all add: process_midi_message_def assms(1) s printf_def set_relay_in_range)
  next
    case False
    then have "data1 \<noteq> 0" "data1 \<noteq> 1" "data1 \<noteq> 2" "data1 \<noteq> 3"
      by auto
    with False show ?thesis
      by (simp add: process_midi_message_def assms(1) s printf_def set_relay_in_range)
  qed
qed

theorem program_change_exclusive_select_witness:
  "(0xC5::u8) AND 0xF0 = MIDI_PROGRAM_CHANGE \<and>
   length (relay_states \<lparr>relay_states = [True, True, False, True], effects = []\<rparr>) = 4 \<and>
   (\<exists>s'. process_midi_message 0xC5 2 0 True \<lparr>relay_states = [True, True, False, True], effects = []\<rparr> = Some s' \<and>
         relay_states s' = [False, False, True, False] \<and>
         gpio_writes (effects s') =
           [(16, False), (17, False), (18, False), (19, False), (18, True)])"
  using program_change_exclusive_select
          [of "0xC5" "\<lparr>relay_states = [True, True, False, True], effects = []\<rparr>" 2 0 True]
  by auto

text \<open>
  Claim C2. For every Control Change message (high nibble 0xB) and every prior state, the
  handler returns. When \<open>data1\<close> is in 1..4 the array afterwards is the array before
  with slot \<open>data1 - 1\<close> set to the comparison \<open>64 \<le> data2\<close>, and the handler writes
  that same value to the pin of relay \<open>data1\<close>, and to no other pin. Otherwise the array
  is the array before and no pin is written. The witness is the boundary: value 63
  switches relay 2 (pin 17) off, value 64 switches it on, and controller 7 changes nothing.
\<close>

theorem control_change_threshold:
  assumes "status AND 0xF0 = MIDI_CC" and "length (relay_states s) = 4"
  shows "\<exists>s' new. process_midi_message status data1 data2 from_bluetooth s = Some s' \<and>
           relay_states s' =
             (if 1 \<le> data1 \<and> data1 \<le> 4 then (relay_states s)[unat data1 - 1 := (64 \<le> data2)]
              else relay_states s) \<and>
           effects s' = effects s @ new \<and>
           gpio_writes new =
             (if 1 \<le> data1 \<and> data1 \<le> 4
              then [(RELAY_1_PIN + (unat data1 - 1), 64 \<le> data2)] else [])"
proof (cases "1 \<le> data1 \<and> data1 \<le> 4")
  case True
  then consider "data1 = 1" | "data1 = 2" | "data1 = 3" | "data1 = 4"
    using u8_1_4_cases by blast
  then show ?thesis
    by cases (simp_all add: process_midi_message_def assms printf_def set_relay_in_range)
next
  case False
  then show ?thesis
    by (auto simp add: process_midi_message_def Let_def assms printf_def)
qed

theorem control_change_threshold_witness:
  "(\<exists>s'. process_midi_message 0xB0 2 63 False
            \<lparr>relay_states = [False, True, False, False], effects = []\<rparr> = Some s' \<and>
         relay_states s' = [False, False, False, False] \<and>
         gpio_writes (effects s') = [(17, False)]) \<and>
   (\<exists>s'. process_midi_message 0xB0 2 64 False
            \<lparr>relay_states = [False, False, False, False], effects = []\<rparr> = Some s' \<and>
         relay_states s' = [False, True, False, False] \<and>
         gpio_writes (effects s') = [(17, True)]) \<and>
   (\<exists>s'. process_midi_message 0xB0 7 127 False
            \<lparr>relay_states = [False, True, False, False], effects = []\<rparr> = Some s' \<and>
         relay_states s' = [False, True, False, False] \<and>
         gpio_writes (effects s') = [])"
  using control_change_threshold
          [of "0xB0" "\<lparr>relay_states = [False, True, False, False], effects = []\<rparr>" 2 63 False]
        control_change_threshold
          [of "0xB0" "\<lparr>relay_states = [False, False, False, False], effects = []\<rparr>" 2 64 False]
        control_change_threshold
          [of "0xB0" "\<lparr>relay_states = [False, True, False, False], effects = []\<rparr>" 7 127 False]
  by auto

text \<open>
  Claim C3. For every note number and every prior state: a Note On (high nibble 0x9) sets
  the relay of the notes 60, 61, 62, 63 (relays 1, 2, 3, 4, array slots 0 to 3, pins 16
  to 19) to on when \<open>data2 > 0\<close> and to off when \<open>data2 = 0\<close>, in the array and on
  the pin, and for any other note leaves the array as it was and writes no pin; a Note Off
  (high nibble 0x8) sets the relay of a mapped note to off, in the array and on the pin,
  and for any other note leaves the array as it was and writes no pin, whatever \<open>data2\<close>
  is.
\<close>

theorem note_messages_map_relays:
  assumes "length (relay_states s) = 4"
  shows "(status AND 0xF0 = MIDI_NOTE_ON \<longrightarrow>
            (\<exists>s' new. process_midi_message status data1 data2 from_bluetooth s = Some s' \<and>
               relay_states s' =
                 (if 60 \<le> data1 \<and> data1 \<le> 63
                  then (relay_states s)[unat data1 - 60 := (0 < data2)]
                  else relay_states s) \<and>
               effects s' = effects s @ new \<and>
               gpio_writes new =
                 (if 60 \<le> data1 \<and> data1 \<le> 63
                  then [(RELAY_1_PIN + (unat data1 - 60), 0 < data2)] else []))) \<and>
         (status AND 0xF0 = MIDI_NOTE_OFF \<longrightarrow>
            (\<exists>s' new. process_midi_message status data1 data2 from_bluetooth s = Some s' \<and>
               relay_states s' =
                 (if 60 \<le> data1 \<and> data1 \<le> 63
                  then (relay_states s)[unat data1 - 60 := False]
                  else relay_states s) \<and>
               effects s' = effects s @ new \<and>
               gpio_writes new =
                 (if 60 \<le> data1 \<and> data1 \<le> 63
                  then [(RELAY_1_PIN + (unat data1 - 60), False)] else [])))"
proof (cases "60 \<le> data1 \<and> data1 \<le> 63")
  case True
  then consider "data1 = 60" | "data1 = 61" | "data1 = 62" | "data1 = 63"
    using u8_60_63_cases by blast
  then show ?thesis
    by cases (simp_all add: process_midi_message_def Let_def assms printf_def set_relay_in_range)
next
  case False
  then show ?thesis
    using u8_not_60_63 [OF False]
    by (auto simp add: process_midi_message_def Let_def assms printf_def)
qed

theorem note_messages_map_relays_witness:
  "(\<exists>s'. process_midi_message 0x90 60 100 False
            \<lparr>relay_states = [False, False, False, False], effects = []\<rparr> = Some s' \<and>
         relay_states s' = [True, False, False, False] \<and>
         gpio_writes (effects s') = [(16, True)]) \<and>
   (\<exists>s'. process_midi_message 0x90 60 0 False
            \<lparr>relay_states = [True, False, False, True], effects = []\<rparr> = Some s' \<and>
         relay_states s' = [False, False, False, True] \<and>
         gpio_writes (effects s') = [(16, False)]) \<and>
   (\<exists>s'. process_midi_message 0x80 63 100 False
            \<lparr>relay_states = [True, False, False, True], effects = []\<rparr> = Some s' \<and>
         relay_states s' = [True, False, False, False] \<and>
         gpio_writes (effects s') = [(19, False)]) \<and>
   (\<exists>s'. process_midi_message 0x90 64 100 False
            \<lparr>relay_states = [True, False, False, True], effects = []\<rparr> = Some s' \<and>
         relay_states s' = [True, False, False, True] \<and>
         gpio_writes (effects s') = [])"
  using note_messages_map_relays
          [of "\<lparr>relay_states = [False, False, False, False], effects = []\<rparr>" "0x90" 60 100 False]
        note_messages_map_relays
          [of "\<lparr>relay_states = [True, False, False, True], effects = []\<rparr>" "0x90" 60 0 False]
        note_messages_map_relays
          [of "\<lparr>relay_states = [True, False, False, True], effects = []\<rparr>" "0x80" 63 100 False]
        note_messages_map_relays
          [of "\<lparr>relay_states = [True, False, False, True], effects = []\<rparr>" "0x90" 64 100 False]
  by auto

text \<open>
  Claim C6. Two runs from the same prior state on messages with the same high nibble of
  the status byte and the same data bytes, whatever their channel nibbles and their
  from-Bluetooth flags, both return and end with the same relay array.
\<close>

theorem relay_state_independent_of_channel_and_source:
  assumes "status AND 0xF0 = status' AND 0xF0" and "length (relay_states s) = 4"
  shows "\<exists>s1 s2. process_midi_message status data1 data2 from_bluetooth s = Some s1 \<and>
                 process_midi_message status' data1 data2 from_bluetooth' s = Some s2 \<and>
                 relay_states s1 = relay_states s2"
  using process_midi_message_relay_states [OF assms(2), of status data1 data2 from_bluetooth]
        process_midi_message_relay_states [OF assms(2), of status' data1 data2 from_bluetooth']
        assms(1)
  by auto

theorem relay_state_independent_of_channel_and_source_witness:
  "\<exists>s1 s2. process_midi_message 0xC0 1 0 False boot_device = Some s1 \<and>
           process_midi_message 0xCF 1 0 True boot_device = Some s2 \<and>
           relay_states s1 = relay_states s2"
  using relay_state_independent_of_channel_and_source [of "0xC0" "0xCF" boot_device 1 0 False True]
  by (simp add: boot_device_def)

text \<open>
  Claim C7. For every status byte and data bytes the handler returns a state (it never
  stores outside the array) whose array still has four elements; and when the high nibble
  of the status byte is none of 0x8, 0x9, 0xB, 0xC the array is unchanged and the only
  effect is the one console line of the unknown message.
\<close>

theorem process_midi_message_never_fails:
  assumes "length (relay_states s) = 4"
  shows "(\<exists>s'. process_midi_message status data1 data2 from_bluetooth s = Some s' \<and>
              length (relay_states s') = 4) \<and>
         (status AND 0xF0 \<notin> {MIDI_NOTE_OFF, MIDI_NOTE_ON, MIDI_CC, MIDI_PROGRAM_CHANGE} \<longrightarrow>
            (\<exists>s'. process_midi_message status data1 data2 from_bluetooth s = Some s' \<and>
               relay_states s' = relay_states s \<and>
               effects s' = effects s @
                 [Printf (UnknownLine (if from_bluetooth then ''BT'' else ''USB'')
                                      status data1 data2)]))"
  using process_midi_message_total [OF assms, of status data1 data2 from_bluetooth]
  by (auto simp add: unknown_closed_form)

theorem process_midi_message_never_fails_witness:
  "(\<exists>s'. process_midi_message 0xF8 1 2 True boot_device = Some s' \<and>
         length (relay_states s') = 4) \<and>
   (\<exists>s'. process_midi_message 0xF8 1 2 True boot_device = Some s' \<and>
         relay_states s' = relay_states boot_device \<and>
         effects s' = effects boot_device @ [Printf (UnknownLine ''BT'' 0xF8 1 2)])"
  using process_midi_message_never_fails [of boot_device "0xF8" 1 2 True]
  by (simp add: boot_device_def)

subsection \<open>The event loop\<close>

text \<open>
  Claim C8. With a Bluetooth session connected: when the read delivers a frame of \<open>n\<close>
  bytes, \<open>n\<close> in 1..3, the Bluetooth block of the loop calls the handler once, from
  the Bluetooth source, with the first byte as status, the second byte as \<open>data1\<close> when
  \<open>n \<ge> 2\<close> and 0 otherwise, the third byte as \<open>data2\<close> when \<open>n \<ge> 3\<close> and 0
  otherwise, whatever the uninitialised buffer held; when the read returns zero bytes
  (nothing pending, or an empty frame) the handler is not called and the device is as
  before. In the witness the stale third byte of the buffer is 0x7F, and the two-byte frame
  is handled with \<open>data2 = 0\<close>.
\<close>

theorem ble_frame_zero_padded:
  assumes "ble_connected w" and "length ble_packet_uninit = 3"
  shows "(ble_pending w = f # fs \<and> 1 \<le> length f \<and> length f \<le> 3 \<longrightarrow>
            main_ble_block ble_packet_uninit w =
              map_option (\<lambda>d. w\<lparr>ble_pending := fs, dev := d\<rparr>)
                (process_midi_message (f ! 0) (if 2 \<le> length f then f ! 1 else 0)
                   (if 3 \<le> length f then f ! 2 else 0) True (dev w))) \<and>
         (ble_pending w = [] \<longrightarrow> main_ble_block ble_packet_uninit w = Some w) \<and>
         (ble_pending w = [] # fs \<longrightarrow>
            main_ble_block ble_packet_uninit w = Some (w\<lparr>ble_pending := fs\<rparr>))"
proof (intro conjI impI)
  assume "ble_pending w = f # fs \<and> 1 \<le> length f \<and> length f \<le> 3"
  then have "ble_pending w = f # fs" "f \<noteq> []" by auto
  with assms show "main_ble_block ble_packet_uninit w =
      map_option (\<lambda>d. w\<lparr>ble_pending := fs, dev := d\<rparr>)
        (process_midi_message (f ! 0) (if 2 \<le> length f then f ! 1 else 0)
           (if 3 \<le> length f then f ! 2 else 0) True (dev w))"
    by (simp add: main_ble_block_dispatch)
next
  assume "ble_pending w = []"
  then show "main_ble_block ble_packet_uninit w = Some w"
    by (rule main_ble_block_no_dispatch(2))
next
  assume "ble_pending w = [] # fs"
  with assms(1) show "main_ble_block ble_packet_uninit w = Some (w\<lparr>ble_pending := fs\<rparr>)"
    by (rule main_ble_block_no_dispatch(3))
qed

theorem ble_frame_zero_padded_witness:
  "main_ble_block [0, 0, 0x7F]
     \<lparr>dev = \<lparr>relay_states = [True, False, False, False], effects = []\<rparr>,
      usb_mounted = False, usb_pending = [], ble_connected = True,
      ble_pending = [[0xB0, 1]]\<rparr> =
   map_option (\<lambda>d. \<lparr>dev = d, usb_mounted = False, usb_pending = [], ble_connected = True,
                     ble_pending = []\<rparr>)
     (process_midi_message 0xB0 1 0 True \<lparr>relay_states = [True, False, False, False], effects = []\<rparr>)"
  using ble_frame_zero_padded
    [of "\<lparr>dev = \<lparr>relay_states = [True, False, False, False], effects = []\<rparr>,
          usb_mounted = False, usb_pending = [], ble_connected = True,
          ble_pending = [[0xB0, 1]]\<rparr>" "[0, 0, 0x7F]" "[0xB0, 1]" "[]"]
  by simp



end
